theory Spec2Isabelle
  imports Main
begin

section \<open>The QR Sync Telegram bot: a model of the webhook handler\<close>

text \<open>
  The repository holds one AWS Lambda function, \<^verbatim>\<open>message\<close> in \<^verbatim>\<open>handler.js\<close>, and an
  earlier variant of the same file (called the first variant below) that has no
  duplicate suppression and decodes the bitmap inside \<^verbatim>\<open>decodePhoto\<close>.

  Every function of the source is asynchronous and talks to collaborators: the Telegram
  client (\<^verbatim>\<open>bot\<close>), DynamoDB (\<^verbatim>\<open>db\<close>), Jimp, jsQR, the vCard parser and the file
  system. The model threads a \<open>world\<close> through the calls. The world holds the log of
  collaborator calls in the order they are made, the files of the temporary directory and
  the DynamoDB table. What a collaborator answers is a parameter (\<open>env\<close>). A rejected
  promise or a thrown exception is the value \<open>Inl e\<close>; \<^verbatim>\<open>await\<close> is \<open>bindIO\<close>, which
  stops at the first rejection as the exception would. \<^verbatim>\<open>console.log\<close> is left out.
\<close>

subsection \<open>Data\<close>

text \<open>One photo-size variant of a Telegram message (\<^verbatim>\<open>TelegramBot.PhotoSize\<close>).\<close>

record photo_size =
  file_id :: string
  width :: int
  height :: int

text \<open>
  The fields of \<^verbatim>\<open>TelegramBot.Message\<close> the handler reads. \<^verbatim>\<open>text\<close> and \<^verbatim>\<open>photo\<close> are
  optional: \<open>None\<close> is JavaScript's \<^verbatim>\<open>undefined\<close>. \<open>chat_id\<close> is \<^verbatim>\<open>message.chat.id\<close>.
\<close>

record message =
  chat_id :: int
  message_id :: int
  msg_text :: "string option"
  msg_photo :: "photo_size list option"

text \<open>
  The parsed webhook body. An update that is not a new message (an edited message, a
  callback query) has no \<^verbatim>\<open>message\<close> field.
\<close>

record update =
  update_id :: int
  upd_message :: "message option"

record event =
  ev_body :: string

record response =
  statusCode :: int
  resp_body :: string

text \<open>Options of \<^verbatim>\<open>bot.sendMessage\<close> and of \<^verbatim>\<open>bot.sendContact\<close>.\<close>

record send_options =
  reply_to_message_id :: "int option"
  parse_mode :: "string option"

record contact_options =
  co_vcard :: string
  co_reply_to_message_id :: int

record bitmap =
  bm_data :: "nat list"
  bm_width :: nat
  bm_height :: nat

text \<open>What \<^verbatim>\<open>Jimp.read\<close> resolves to: an image with its \<^verbatim>\<open>bitmap\<close>.\<close>

record image =
  img_bitmap :: bitmap

text \<open>What \<^verbatim>\<open>jsQR\<close> returns when it finds a code: an object with the decoded \<^verbatim>\<open>data\<close>.\<close>

record qr_code =
  qr_data :: string

text \<open>
  What \<^verbatim>\<open>vCard.parse\<close> returns: for each field present in the card, the list of its
  entries, each with a \<^verbatim>\<open>value\<close>. The value is a string, or an array when the text of
  the property has a comma or a semicolon that is not escaped (\<^verbatim>\<open>FN:Lovelace, Ada\<close>);
  the elements of an array are strings or arrays. Only \<^verbatim>\<open>fn\<close> and \<^verbatim>\<open>tel\<close> are read.
\<close>

datatype js_value = JString string | JArray "js_value list"

record vc_entry =
  vc_value :: js_value

record card =
  card_fn :: "vc_entry list option"
  card_tel :: "vc_entry list option"

record properties =
  prop_name :: string
  prop_telephone :: string

text \<open>
  A DynamoDB item is a map from attribute names to numbers, a table a map from the
  value of the key attribute \<^verbatim>\<open>id\<close> to the item.
\<close>

type_synonym item = "string \<rightharpoonup> int"

type_synonym db_table = "string \<rightharpoonup> item"

text \<open>The calls made to collaborators, as they are logged in the world.\<close>

datatype call =
    SendMessage int string "send_options option"
  | SendContact int string string contact_options
  | DownloadFile string string
  | JimpRead string
  | JsQR bitmap
  | UnlinkSync string
  | DbGet string
  | DbUpdate string string int

datatype error =
    SyntaxError
  | TypeError
  | SendFailed
  | DownloadFailed
  | ReadFailed
  | DbFailed
  | ENOENT

record world =
  calls :: "call list"
  files :: "string set"
  table :: db_table

text \<open>
  The environment: the configuration and the answers of the collaborators.
  \<^item> \<open>sizeLimit\<close> is the value of \<^verbatim>\<open>parseInt(process.env.MAX_PHOTO_SIZE)\<close>, \<open>None\<close> when
    it is \<^verbatim>\<open>NaN\<close>;
  \<^item> \<open>tmpdir\<close> is \<^verbatim>\<open>os.tmpdir()\<close>;
  \<^item> \<open>JSON_parse\<close> is \<^verbatim>\<open>JSON.parse\<close> read at the type of an update, \<open>None\<close> when it
    throws;
  \<^item> \<open>sendRejects\<close> tells which calls the Telegram API rejects;
  \<^item> \<open>downloadFile\<close> gives the path the file is saved under, \<open>None\<close> when the download
    fails; \<open>jimpRead\<close> the image read from a path, \<open>None\<close> when Jimp rejects;
  \<^item> \<open>jsQR\<close> gives the code found in a bitmap, \<open>None\<close> for \<^verbatim>\<open>null\<close> (no code found);
  \<^item> \<open>dbGetFails\<close> and \<open>dbUpdateFails\<close> tell whether DynamoDB rejects the request.
\<close>

record env =
  sizeLimit :: "int option"
  tmpdir :: string
  JSON_parse :: "string \<Rightarrow> update option"
  sendRejects :: "call \<Rightarrow> bool"
  downloadFile :: "string \<Rightarrow> string \<Rightarrow> string option"
  jimpRead :: "string \<Rightarrow> image option"
  jsQR :: "bitmap \<Rightarrow> qr_code option"
  vCard_parse :: "string \<Rightarrow> card"
  dbGetFails :: bool
  dbUpdateFails :: bool

subsection \<open>Promises\<close>

type_synonym 'a io = "world \<Rightarrow> (error + 'a) \<times> world"

definition resolve :: "'a \<Rightarrow> 'a io" where
  "resolve x s = (Inr x, s)"

definition throw :: "error \<Rightarrow> 'a io" where
  "throw e s = (Inl e, s)"

definition bindIO :: "'a io \<Rightarrow> ('a \<Rightarrow> 'b io) \<Rightarrow> 'b io" where
  "bindIO m f s = (case m s of (Inl e, s') \<Rightarrow> (Inl e, s') | (Inr x, s') \<Rightarrow> f x s')"

definition logCall :: "call \<Rightarrow> world \<Rightarrow> world" where
  "logCall c s = s\<lparr>calls := calls s @ [c]\<rparr>"

subsection \<open>Collaborators\<close>

definition bot_sendMessage :: "env \<Rightarrow> int \<Rightarrow> string \<Rightarrow> send_options option \<Rightarrow> unit io" where
  "bot_sendMessage env chatId txt options s =
     (let c = SendMessage chatId txt options
      in if sendRejects env c then (Inl SendFailed, logCall c s) else (Inr (), logCall c s))"

definition bot_sendContact :: "env \<Rightarrow> int \<Rightarrow> string \<Rightarrow> string \<Rightarrow> contact_options \<Rightarrow> unit io" where
  "bot_sendContact env chatId phone name options s =
     (let c = SendContact chatId phone name options
      in if sendRejects env c then (Inl SendFailed, logCall c s) else (Inr (), logCall c s))"

text \<open>\<^verbatim>\<open>bot.downloadFile(fileId, dir)\<close> saves the file under \<^verbatim>\<open>dir\<close> and resolves to its path.\<close>

definition bot_downloadFile :: "env \<Rightarrow> string \<Rightarrow> string \<Rightarrow> string io" where
  "bot_downloadFile env fileId dir s =
     (case downloadFile env fileId dir of
        None \<Rightarrow> (Inl DownloadFailed, logCall (DownloadFile fileId dir) s)
      | Some path \<Rightarrow>
          (Inr path, (logCall (DownloadFile fileId dir) s)\<lparr>files := insert path (files s)\<rparr>))"

definition Jimp_read :: "env \<Rightarrow> string \<Rightarrow> image io" where
  "Jimp_read env path s =
     (case (if path \<in> files s then jimpRead env path else None) of
        None \<Rightarrow> (Inl ReadFailed, logCall (JimpRead path) s)
      | Some img \<Rightarrow> (Inr img, logCall (JimpRead path) s))"

text \<open>\<^verbatim>\<open>fs.unlinkSync\<close> throws when there is no such file.\<close>

definition fs_unlinkSync :: "string \<Rightarrow> unit io" where
  "fs_unlinkSync path s =
     (if path \<in> files s
      then (Inr (), (logCall (UnlinkSync path) s)\<lparr>files := files s - {path}\<rparr>)
      else (Inl ENOENT, logCall (UnlinkSync path) s))"

text \<open>\<^verbatim>\<open>db.get(params).promise()\<close>: the result's \<^verbatim>\<open>Item\<close> is undefined when no item has the key.\<close>

definition db_get :: "env \<Rightarrow> string \<Rightarrow> item option io" where
  "db_get env key s =
     (if dbGetFails env then (Inl DbFailed, logCall (DbGet key) s)
      else (Inr (table s key), logCall (DbGet key) s))"

text \<open>
  \<^verbatim>\<open>db.update(params).promise()\<close> with the expression \<^verbatim>\<open>SET #latest = :latest\<close>: sets one
  attribute of the item with the key, creating the item when there is none.
\<close>

definition db_update :: "env \<Rightarrow> string \<Rightarrow> string \<Rightarrow> int \<Rightarrow> unit io" where
  "db_update env key attr v s =
     (if dbUpdateFails env then (Inl DbFailed, logCall (DbUpdate key attr v) s)
      else (Inr (),
            (logCall (DbUpdate key attr v) s)
              \<lparr>table := (table s)(key \<mapsto>
                 (case table s key of None \<Rightarrow> Map.empty | Some it \<Rightarrow> it)(attr \<mapsto> v))\<rparr>))"

subsection \<open>JavaScript strings and numbers\<close>

text \<open>
  A string of the model is a list of 8-bit characters, read as code units below 256.
  \<^verbatim>\<open>String.prototype.trim\<close> removes white space and line terminators from both ends;
  below 256 these are tab, line feed, vertical tab, form feed, carriage return, space
  and the no-break space.
\<close>

definition isWhiteSpace :: "char \<Rightarrow> bool" where
  "isWhiteSpace c = (c \<in> set [CHR 0x09, CHR 0x0A, CHR 0x0B, CHR 0x0C, CHR 0x0D, CHR 0x20, CHR 0xA0])"

definition trim :: "string \<Rightarrow> string" where
  "trim v = rev (dropWhile isWhiteSpace (rev (dropWhile isWhiteSpace v)))"

definition startsWith :: "string \<Rightarrow> string \<Rightarrow> bool" where
  "startsWith v p = (take (length p) v = p)"

text \<open>The decimal digits of a number, as a template literal prints an integer.\<close>

fun showNat :: "nat \<Rightarrow> string" where
  "showNat n = (if n < 10 then [''0123456789'' ! n]
                else showNat (n div 10) @ [''0123456789'' ! (n mod 10)])"

definition showInt :: "int \<Rightarrow> string" where
  "showInt i = (if i < 0 then CHR ''-'' # showNat (nat (- i)) else showNat (nat i))"

text \<open>A number that may be \<^verbatim>\<open>NaN\<close>, as a template literal prints it.\<close>

definition showNumber :: "int option \<Rightarrow> string" where
  "showNumber v = (case v of None \<Rightarrow> ''NaN'' | Some i \<Rightarrow> showInt i)"

text \<open>\<^verbatim>\<open>a > b\<close> and \<^verbatim>\<open>a < b\<close> where one side may be \<^verbatim>\<open>undefined\<close> or \<^verbatim>\<open>NaN\<close>: then false.\<close>

definition js_gt :: "int \<Rightarrow> int option \<Rightarrow> bool" where
  "js_gt a b = (case b of None \<Rightarrow> False | Some b' \<Rightarrow> a > b')"

definition js_lt :: "int option \<Rightarrow> int \<Rightarrow> bool" where
  "js_lt a b = (case a of None \<Rightarrow> False | Some a' \<Rightarrow> a' < b)"

subsection \<open>Sending messages\<close>

definition errorText :: string where
  "errorText = ''There was a problem with your request.''"

definition sendErrorMessage :: "env \<Rightarrow> int \<Rightarrow> unit io" where
  "sendErrorMessage env chatId = bot_sendMessage env chatId errorText None"

text \<open>
  \<^verbatim>\<open>{...options, parse_mode: 'Markdown'}\<close>: the options given, if any, with the parse mode
  set.
\<close>

definition sendMarkdownMessage :: "env \<Rightarrow> int \<Rightarrow> string \<Rightarrow> send_options option \<Rightarrow> unit io" where
  "sendMarkdownMessage env chatId txt options =
     bot_sendMessage env chatId txt
       (Some ((case options of
                 None \<Rightarrow> \<lparr>reply_to_message_id = None, parse_mode = None\<rparr>
               | Some opts \<Rightarrow> opts)\<lparr>parse_mode := Some ''Markdown''\<rparr>))"

definition sendMarkdownReply :: "env \<Rightarrow> int \<Rightarrow> int \<Rightarrow> string \<Rightarrow> unit io" where
  "sendMarkdownReply env chatId messageId txt =
     sendMarkdownMessage env chatId txt
       (Some \<lparr>reply_to_message_id = Some messageId, parse_mode = None\<rparr>)"

subsection \<open>The contact property extractor\<close>

text \<open>
  \<^verbatim>\<open>forEach\<close> over the entries of a field, with an assignment to the variable in its
  body: the loop runs from the left, \<open>current\<close> is the variable. The body calls
  \<^verbatim>\<open>value.trim()\<close>. An array has no such method: the call throws a TypeError, which ends
  the loop and \<^verbatim>\<open>extractProperties\<close>.
\<close>

fun forEachEntry :: "vc_entry list \<Rightarrow> string \<Rightarrow> error + string" where
  "forEachEntry [] current = Inr current"
| "forEachEntry (entry # entries) current =
     (case vc_value entry of
        JArray _ \<Rightarrow> Inl TypeError
      | JString v \<Rightarrow> forEachEntry entries (if trim v \<noteq> [] then v else current))"

definition extractProperties :: "env \<Rightarrow> string \<Rightarrow> error + properties" where
  "extractProperties env vcard =
     (let card = vCard_parse env vcard;
          name = ''No name found'';
          telephone = ''123456789''
      in case (case card_fn card of
                 None \<Rightarrow> Inr name
               | Some entries \<Rightarrow> forEachEntry entries name) of
           Inl e \<Rightarrow> Inl e
         | Inr name \<Rightarrow>
             (case (case card_tel card of
                      None \<Rightarrow> Inr telephone
                    | Some entries \<Rightarrow> forEachEntry entries telephone) of
                Inl e \<Rightarrow> Inl e
              | Inr telephone \<Rightarrow> Inr \<lparr>prop_name = name, prop_telephone = telephone\<rparr>))"

text \<open>An exception of \<^verbatim>\<open>extractProperties\<close> rejects the promise; no contact is sent.\<close>

definition sendContactReply :: "env \<Rightarrow> int \<Rightarrow> int \<Rightarrow> string \<Rightarrow> unit io" where
  "sendContactReply env chatId messageId vcard =
     (case extractProperties env vcard of
        Inl e \<Rightarrow> throw e
      | Inr properties \<Rightarrow>
          bot_sendContact env chatId (prop_telephone properties) (prop_name properties)
            \<lparr>co_vcard = vcard, co_reply_to_message_id = messageId\<rparr>)"

subsection \<open>Decoding a photo\<close>

text \<open>
  \<^verbatim>\<open>decodeBitmap\<close> of \<^verbatim>\<open>handler.js\<close>. The executor of the promise reads \<^verbatim>\<open>result.data\<close>;
  when \<^verbatim>\<open>jsQR\<close> has returned \<^verbatim>\<open>null\<close> this read throws a TypeError and the promise is
  rejected. \<^verbatim>\<open>result.data || ''\<close> is the data, the empty string being the only falsy one.
\<close>

definition decodeBitmap :: "env \<Rightarrow> bitmap \<Rightarrow> string io" where
  "decodeBitmap env bitmap s =
     (let s' = logCall (JsQR bitmap) s
      in case jsQR env bitmap of
           None \<Rightarrow> (Inl TypeError, s')
         | Some result \<Rightarrow> (Inr (if qr_data result \<noteq> [] then qr_data result else []), s'))"

definition decodePhoto :: "env \<Rightarrow> photo_size \<Rightarrow> string io" where
  "decodePhoto env photo =
     bindIO (bot_downloadFile env (file_id photo) (tmpdir env)) (\<lambda>path.
     bindIO (Jimp_read env path) (\<lambda>image.
     bindIO (decodeBitmap env (img_bitmap image)) (\<lambda>result.
     bindIO (fs_unlinkSync path) (\<lambda>_.
     resolve result))))"

text \<open>
  \<^verbatim>\<open>decodePhoto\<close> of the first variant: it calls \<^verbatim>\<open>jsQR\<close> itself, removes the file and
  reads \<^verbatim>\<open>result.data\<close> only then.
\<close>

definition decodePhoto_first :: "env \<Rightarrow> photo_size \<Rightarrow> string io" where
  "decodePhoto_first env photo =
     bindIO (bot_downloadFile env (file_id photo) (tmpdir env)) (\<lambda>path.
     bindIO (Jimp_read env path) (\<lambda>image.
     bindIO (\<lambda>s. (Inr (jsQR env (img_bitmap image)), logCall (JsQR (img_bitmap image)) s))
       (\<lambda>result.
     bindIO (fs_unlinkSync path) (\<lambda>_.
     case result of
       None \<Rightarrow> throw TypeError
     | Some r \<Rightarrow> resolve (if qr_data r \<noteq> [] then qr_data r else [])))))"

subsection \<open>The handlers\<close>

definition mdOptions :: "send_options option" where
  "mdOptions = Some \<lparr>reply_to_message_id = None, parse_mode = Some ''Markdown''\<rparr>"

definition startMessage :: string where
  "startMessage = ''Hi, I'm QR Sync Bot! I can decode your QR codes.''"

definition aboutMessage :: string where
  "aboutMessage = ''I was created by @emilioschepis. You can find my code on [GitHub](https://github.com/emilioschepis/qr-sync-telegram-bot).''"

text \<open>
  The template literal of \<^verbatim>\<open>appMessage\<close> continues its lines with a backslash: the line
  break is dropped, the six blanks that indent the next line stay, before each \<^verbatim>\<open>\n\<close>.
\<close>

definition appMessage :: string where
  "appMessage =
     ''Are you on Android? Download the [QR Sync app](https://play.google.com/store/apps/details?id=com.emilioschepis.qrsync)!''
     @ ''      '' @ [CHR 0x0A]
     @ ''It is completely free and [open source](https://github.com/emilioschepis/qrsync).''
     @ ''      '' @ [CHR 0x0A]
     @ ''You'll be able to scan a wide variety of codes keeping them synced in the cloud.''"

definition handleTextMessage :: "env \<Rightarrow> message \<Rightarrow> unit io" where
  "handleTextMessage env message =
     (if msg_text message = Some ''/start''
        then sendMarkdownMessage env (chat_id message) startMessage None
      else if msg_text message = Some ''/about''
        then sendMarkdownMessage env (chat_id message) aboutMessage None
      else if msg_text message = Some ''/app''
        then sendMarkdownMessage env (chat_id message) appMessage None
      else resolve ())"

text \<open>The first variant knows \<^verbatim>\<open>/start\<close> and \<^verbatim>\<open>/about\<close> only.\<close>

definition handleTextMessage_first :: "env \<Rightarrow> message \<Rightarrow> unit io" where
  "handleTextMessage_first env message =
     (if msg_text message = Some ''/start''
        then sendMarkdownMessage env (chat_id message) startMessage None
      else if msg_text message = Some ''/about''
        then sendMarkdownMessage env (chat_id message) aboutMessage None
      else resolve ())"

definition sizeLimitMessage :: "int option \<Rightarrow> string" where
  "sizeLimitMessage limit =
     ''I'm sorry, I will only decode images up to '' @ showNumber limit @ ''x''
       @ showNumber limit @ ''.''"

definition decodingMessage :: string where
  "decodingMessage = ''Give me a second, I'm decoding your photo...''"

definition emptyMessage :: string where
  "emptyMessage = ''The code you sent could not be decoded.''"

definition doneContactMessage :: string where
  "doneContactMessage =
     ''*I decoded your QR code!*'' @ [CHR 0x0A] @ ''Here's the contact it contains:''"

definition doneTextMessage :: string where
  "doneTextMessage =
     ''*I decoded your QR code!*'' @ [CHR 0x0A] @ ''Here's the text it contains:''"

text \<open>
  \<^verbatim>\<open>message.photo[message.photo.length - 1]\<close>: reading \<^verbatim>\<open>length\<close> of an undefined
  \<^verbatim>\<open>photo\<close> throws; on an empty array the element is undefined and reading its
  \<^verbatim>\<open>width\<close> throws.
\<close>

definition handlePhotoMessage :: "env \<Rightarrow> message \<Rightarrow> unit io" where
  "handlePhotoMessage env message =
     (case msg_photo message of
        None \<Rightarrow> throw TypeError
      | Some sizes \<Rightarrow>
          if sizes = [] then throw TypeError
          else
            let photo = last sizes
            in if js_gt (width photo) (sizeLimit env) \<or> js_gt (height photo) (sizeLimit env)
               then sendMarkdownMessage env (chat_id message)
                      (sizeLimitMessage (sizeLimit env)) None
               else
                 bindIO (sendMarkdownMessage env (chat_id message) decodingMessage None) (\<lambda>_.
                 bindIO (decodePhoto env photo) (\<lambda>data.
                   if data = []
                     then sendMarkdownReply env (chat_id message) (message_id message)
                            emptyMessage
                   else if startsWith data ''BEGIN:VCARD''
                     then bindIO (sendMarkdownMessage env (chat_id message)
                                    doneContactMessage None) (\<lambda>_.
                          sendContactReply env (chat_id message) (message_id message) data)
                   else bindIO (sendMarkdownMessage env (chat_id message)
                                  doneTextMessage None) (\<lambda>_.
                        sendMarkdownReply env (chat_id message) (message_id message) data))))"

definition handlePhotoMessage_first :: "env \<Rightarrow> message \<Rightarrow> unit io" where
  "handlePhotoMessage_first env message =
     (case msg_photo message of
        None \<Rightarrow> throw TypeError
      | Some sizes \<Rightarrow>
          if sizes = [] then throw TypeError
          else
            let photo = last sizes
            in if js_gt (width photo) (sizeLimit env) \<or> js_gt (height photo) (sizeLimit env)
               then sendMarkdownMessage env (chat_id message)
                      (sizeLimitMessage (sizeLimit env)) None
               else
                 bindIO (sendMarkdownMessage env (chat_id message) decodingMessage None) (\<lambda>_.
                 bindIO (decodePhoto_first env photo) (\<lambda>data.
                   if data = []
                     then sendMarkdownReply env (chat_id message) (message_id message)
                            emptyMessage
                   else if startsWith data ''BEGIN:VCARD''
                     then bindIO (sendMarkdownMessage env (chat_id message)
                                    doneContactMessage None) (\<lambda>_.
                          sendContactReply env (chat_id message) (message_id message) data)
                   else bindIO (sendMarkdownMessage env (chat_id message)
                                  doneTextMessage None) (\<lambda>_.
                        sendMarkdownReply env (chat_id message) (message_id message) data))))"

text \<open>
  The router. \<^verbatim>\<open>message.text\<close> is truthy when it is a string that is not empty;
  \<^verbatim>\<open>message.photo && message.photo.length > 0\<close> when the array is there and not empty.
\<close>

definition truthy :: "string option \<Rightarrow> bool" where
  "truthy v = (case v of None \<Rightarrow> False | Some t \<Rightarrow> t \<noteq> [])"

definition hasPhoto :: "message \<Rightarrow> bool" where
  "hasPhoto message = (case msg_photo message of None \<Rightarrow> False | Some sizes \<Rightarrow> length sizes > 0)"

definition handleIncomingMessage :: "env \<Rightarrow> message \<Rightarrow> unit io" where
  "handleIncomingMessage env message =
     (if truthy (msg_text message) then handleTextMessage env message
      else if hasPhoto message then handlePhotoMessage env message
      else resolve ())"

definition handleIncomingMessage_first :: "env \<Rightarrow> message \<Rightarrow> unit io" where
  "handleIncomingMessage_first env message =
     (if truthy (msg_text message) then handleTextMessage_first env message
      else if hasPhoto message then handlePhotoMessage_first env message
      else resolve ())"

subsection \<open>The idempotency gate\<close>

definition markerKey :: string where
  "markerKey = ''latest_update_id''"

definition markerAttr :: string where
  "markerAttr = ''latest_update_id''"

text \<open>
  \<^verbatim>\<open>result.Item['latest_update_id']\<close> throws a TypeError when \<^verbatim>\<open>Item\<close> is undefined, and is
  undefined when the item has no such attribute. The function returns false when the
  update is new.
\<close>

definition checkAlreadyHandled :: "env \<Rightarrow> int \<Rightarrow> bool io" where
  "checkAlreadyHandled env current =
     bindIO (db_get env markerKey) (\<lambda>result.
       case result of
         None \<Rightarrow> throw TypeError
       | Some theItem \<Rightarrow>
           let latest = theItem markerAttr
           in if js_lt latest current
              then bindIO (db_update env markerKey markerAttr current) (\<lambda>_. resolve False)
              else resolve True)"

text \<open>The marker a world stores, if any.\<close>

definition marker :: "world \<Rightarrow> int option" where
  "marker s = (case table s markerKey of None \<Rightarrow> None | Some theItem \<Rightarrow> theItem markerAttr)"

subsection \<open>The Lambda function\<close>

text \<open>\<^verbatim>\<open>JSON.stringify({done: true})\<close> is the body of the fixed response.\<close>

definition theResponse :: response where
  "theResponse = \<lparr>statusCode = 200, resp_body = ''{\"done\":true}''\<rparr>"

text \<open>The block under \<^verbatim>\<open>try\<close> in \<^verbatim>\<open>message\<close>.\<close>

definition tryBlock :: "env \<Rightarrow> update \<Rightarrow> message \<Rightarrow> unit io" where
  "tryBlock env body theMessage =
     bindIO (checkAlreadyHandled env (update_id body)) (\<lambda>handled.
       if handled then sendErrorMessage env (chat_id theMessage)
       else handleIncomingMessage env theMessage)"

text \<open>
  \<^verbatim>\<open>message\<close>. \<^verbatim>\<open>JSON.parse(event.body)\<close> and \<^verbatim>\<open>body.message.chat.id\<close> are evaluated
  before the \<^verbatim>\<open>try\<close>: when one of them throws, the promise of the function is rejected
  (\<open>Inl\<close>). After that \<^verbatim>\<open>finally { return response }\<close> decides the result, also when the
  \<^verbatim>\<open>catch\<close> block itself throws.
\<close>

definition message :: "env \<Rightarrow> event \<Rightarrow> response io" where
  "message env theEvent s =
     (case JSON_parse env (ev_body theEvent) of
        None \<Rightarrow> (Inl SyntaxError, s)
      | Some body \<Rightarrow>
          (case upd_message body of
             None \<Rightarrow> (Inl TypeError, s)
           | Some theMessage \<Rightarrow>
               let chatId = chat_id theMessage
               in (case tryBlock env body theMessage s of
                     (Inr _, s1) \<Rightarrow> (Inr theResponse, s1)
                   | (Inl err, s1) \<Rightarrow>
                       (case sendErrorMessage env chatId s1 of
                          (_, s2) \<Rightarrow> (Inr theResponse, s2)))))"

subsection \<open>The extractor as the specification words it\<close>

text \<open>
  A value is blank when it consists of white space only. The specification asks for the
  last value that is not blank among the entries of a field, and for a placeholder when
  the field is absent or has no such value.
\<close>

definition blank :: "string \<Rightarrow> bool" where
  "blank v = list_all isWhiteSpace v"

text \<open>The values of the entries that are strings, and whether all of a field's are.\<close>

definition stringValues :: "vc_entry list \<Rightarrow> string list" where
  "stringValues entries =
     concat (map (\<lambda>e. case vc_value e of JString v \<Rightarrow> [v] | JArray _ \<Rightarrow> []) entries)"

definition stringValued :: "vc_entry list option \<Rightarrow> bool" where
  "stringValued field =
     (case field of
        None \<Rightarrow> True
      | Some entries \<Rightarrow>
          list_all (\<lambda>e. case vc_value e of JString _ \<Rightarrow> True | JArray _ \<Rightarrow> False) entries)"

definition lastNonBlank :: "string \<Rightarrow> vc_entry list option \<Rightarrow> string" where
  "lastNonBlank placeholder field =
     (case field of
        None \<Rightarrow> placeholder
      | Some entries \<Rightarrow>
          (case rev (filter (\<lambda>v. \<not> blank v) (stringValues entries)) of
             [] \<Rightarrow> placeholder
           | v # _ \<Rightarrow> v))"

subsection \<open>Example inputs\<close>

text \<open>
  An environment in which every collaborator answers: the size limit is 1280, the
  download of a file saves it under the temporary directory, Jimp reads a bitmap, and
  jsQR finds the given code, or none. \<open>bodies\<close> lists what the request bodies parse to,
  \<open>cards\<close> what the contact payloads parse to.
\<close>

definition exampleBitmap :: bitmap where
  "exampleBitmap = \<lparr>bm_data = [0, 0, 0, 255], bm_width = 1, bm_height = 1\<rparr>"

definition exampleEnv :: "(string \<times> update) list \<Rightarrow> (string \<times> card) list \<Rightarrow> qr_code option \<Rightarrow> env" where
  "exampleEnv bodies cards code =
     \<lparr>sizeLimit = Some 1280,
      tmpdir = ''/tmp'',
      JSON_parse = map_of bodies,
      sendRejects = (\<lambda>_. False),
      downloadFile = (\<lambda>fileId dir. Some (dir @ ''/'' @ fileId @ ''.jpg'')),
      jimpRead = (\<lambda>_. Some \<lparr>img_bitmap = exampleBitmap\<rparr>),
      jsQR = (\<lambda>_. code),
      vCard_parse = (\<lambda>v. case map_of cards v of
                           None \<Rightarrow> \<lparr>card_fn = None, card_tel = None\<rparr>
                         | Some c \<Rightarrow> c),
      dbGetFails = False,
      dbUpdateFails = False\<rparr>"

text \<open>A world whose table holds the marker \<open>latest\<close>, and one whose table is empty.\<close>

definition worldWithMarker :: "int \<Rightarrow> world" where
  "worldWithMarker latest =
     \<lparr>calls = [], files = {}, table = [markerKey \<mapsto> [markerAttr \<mapsto> latest]]\<rparr>"

definition worldWithoutMarker :: world where
  "worldWithoutMarker = \<lparr>calls = [], files = {}, table = Map.empty\<rparr>"

definition textMessage :: message where
  "textMessage = \<lparr>chat_id = 42, message_id = 7, msg_text = Some ''/start'', msg_photo = None\<rparr>"

definition textBody :: string where
  "textBody = ''{\"update_id\":101,\"message\":{\"message_id\":7,\"chat\":{\"id\":42},\"text\":\"/start\"}}''"

definition textUpdate :: update where
  "textUpdate = \<lparr>update_id = 101, upd_message = Some textMessage\<rparr>"

definition smallPhoto :: photo_size where
  "smallPhoto = \<lparr>file_id = ''AgAD'', width = 640, height = 480\<rparr>"

definition largePhoto :: photo_size where
  "largePhoto = \<lparr>file_id = ''AgAE'', width = 2000, height = 1500\<rparr>"

definition photoMessage :: message where
  "photoMessage = \<lparr>chat_id = 42, message_id = 8, msg_text = None, msg_photo = Some [smallPhoto]\<rparr>"

definition photoBody :: string where
  "photoBody = ''{\"update_id\":102,\"message\":{\"message_id\":8,\"chat\":{\"id\":42},\"photo\":[{\"file_id\":\"AgAD\",\"width\":640,\"height\":480}]}}''"

definition photoUpdate :: update where
  "photoUpdate = \<lparr>update_id = 102, upd_message = Some photoMessage\<rparr>"

definition largePhotoMessage :: message where
  "largePhotoMessage =
     \<lparr>chat_id = 42, message_id = 9, msg_text = None, msg_photo = Some [smallPhoto, largePhoto]\<rparr>"

definition captionedMessage :: message where
  "captionedMessage =
     \<lparr>chat_id = 42, message_id = 10, msg_text = Some ''/about'', msg_photo = Some [smallPhoto]\<rparr>"

text \<open>An update that carries an edited message and no \<^verbatim>\<open>message\<close>.\<close>

definition editedBody :: string where
  "editedBody = ''{\"update_id\":103,\"edited_message\":{\"message_id\":7,\"chat\":{\"id\":42},\"text\":\"/app\"}}''"

definition editedUpdate :: update where
  "editedUpdate = \<lparr>update_id = 103, upd_message = None\<rparr>"

definition exampleBodies :: "(string \<times> update) list" where
  "exampleBodies = [(textBody, textUpdate), (photoBody, photoUpdate), (editedBody, editedUpdate)]"

definition exampleVCard :: string where
  "exampleVCard = ''BEGIN:VCARD'' @ [CHR 0x0A] @ ''FN:Ada Lovelace'' @ [CHR 0x0A]
     @ ''TEL:+44 20 7946 0000'' @ [CHR 0x0A] @ ''TEL: '' @ [CHR 0x0A] @ ''END:VCARD''"

definition exampleCard :: card where
  "exampleCard =
     \<lparr>card_fn = Some [\<lparr>vc_value = JString ''Ada Lovelace''\<rparr>],
      card_tel = Some [\<lparr>vc_value = JString ''+44 20 7946 0000''\<rparr>,
                       \<lparr>vc_value = JString '' ''\<rparr>]\<rparr>"

text \<open>A contact whose formatted name has a comma: the parser gives its value as an array.\<close>

definition commaVCard :: string where
  "commaVCard = ''BEGIN:VCARD'' @ [CHR 0x0A] @ ''FN:Lovelace, Ada'' @ [CHR 0x0A]
     @ ''TEL:+44 20 7946 0000'' @ [CHR 0x0A] @ ''END:VCARD''"

definition commaCard :: card where
  "commaCard =
     \<lparr>card_fn = Some [\<lparr>vc_value = JArray [JString ''Lovelace'', JString '' Ada'']\<rparr>],
      card_tel = Some [\<lparr>vc_value = JString ''+44 20 7946 0000''\<rparr>]\<rparr>"

definition exampleCards :: "(string \<times> card) list" where
  "exampleCards = [(exampleVCard, exampleCard), (commaVCard, commaCard)]"

section \<open>Properties\<close>

lemmas io_defs = resolve_def throw_def bindIO_def logCall_def Let_def

lemmas send_defs = sendErrorMessage_def sendMarkdownMessage_def sendMarkdownReply_def
  sendContactReply_def mdOptions_def

lemmas collab_defs = bot_sendMessage_def bot_sendContact_def bot_downloadFile_def
  Jimp_read_def fs_unlinkSync_def db_get_def db_update_def

lemmas example_defs = exampleEnv_def exampleBodies_def
  worldWithMarker_def textMessage_def textBody_def
  textUpdate_def smallPhoto_def photoMessage_def photoBody_def photoUpdate_def
  editedBody_def editedUpdate_def

subsection \<open>The idempotency gate\<close>

text \<open>
  Claim C2. For every incoming update id and every stored marker value: when the id is
  strictly greater than the marker, the gate advances the marker to the id and reports
  the update as new (\<^verbatim>\<open>checkAlreadyHandled\<close> returns false, so that the update is
  processed); otherwise it reports that the update was handled already and leaves the
  table, and so the marker, as it was. DynamoDB is taken to answer both requests.
\<close>

theorem checkAlreadyHandled_advances_or_skips:
  assumes "\<not> dbGetFails env" and "\<not> dbUpdateFails env" and "marker s = Some latest"
  shows "(latest < current \<longrightarrow>
            fst (checkAlreadyHandled env current s) = Inr False
          \<and> marker (snd (checkAlreadyHandled env current s)) = Some current)
       \<and> (\<not> latest < current \<longrightarrow>
            fst (checkAlreadyHandled env current s) = Inr True
          \<and> table (snd (checkAlreadyHandled env current s)) = table s
          \<and> marker (snd (checkAlreadyHandled env current s)) = Some latest)"
  using assms
  by (auto simp: checkAlreadyHandled_def marker_def io_defs db_get_def db_update_def js_lt_def
      split: option.splits)

theorem checkAlreadyHandled_advances_or_skips_witness:
  "fst (checkAlreadyHandled (exampleEnv [] [] None) 101 (worldWithMarker 100)) = Inr False
   \<and> marker (snd (checkAlreadyHandled (exampleEnv [] [] None) 101 (worldWithMarker 100))) = Some 101
   \<and> fst (checkAlreadyHandled (exampleEnv [] [] None) 100 (worldWithMarker 100)) = Inr True
   \<and> marker (snd (checkAlreadyHandled (exampleEnv [] [] None) 100 (worldWithMarker 100))) = Some 100
   \<and> fst (checkAlreadyHandled (exampleEnv [] [] None) 99 (worldWithMarker 100)) = Inr True
   \<and> marker (snd (checkAlreadyHandled (exampleEnv [] [] None) 99 (worldWithMarker 100))) = Some 100"
proof -
  have g: "\<not> dbGetFails (exampleEnv [] [] None)" and u: "\<not> dbUpdateFails (exampleEnv [] [] None)"
    by (simp_all add: exampleEnv_def)
  have m: "marker (worldWithMarker 100) = Some 100"
    by (simp add: marker_def worldWithMarker_def)
  show ?thesis
    using checkAlreadyHandled_advances_or_skips [OF g u m, of 101]
      checkAlreadyHandled_advances_or_skips [OF g u m, of 100]
      checkAlreadyHandled_advances_or_skips [OF g u m, of 99]
    by simp
qed

text \<open>
  Claim C3 says that an absent marker record makes the gate initialise the marker and
  process the update. The code reads the attribute of the record it got without looking
  whether there is one. With an empty table and update 101 the gate throws a TypeError,
  the table stays empty, and the only message of the invocation is the error message.
\<close>

theorem absent_marker_counterexample:
  "checkAlreadyHandled (exampleEnv exampleBodies [] None) 101 worldWithoutMarker
     = (Inl TypeError, worldWithoutMarker\<lparr>calls := [DbGet markerKey]\<rparr>)
   \<and> marker (snd (checkAlreadyHandled (exampleEnv exampleBodies [] None) 101 worldWithoutMarker)) = None
   \<and> calls (snd (message (exampleEnv exampleBodies [] None) \<lparr>ev_body = textBody\<rparr> worldWithoutMarker))
       = [DbGet markerKey, SendMessage 42 errorText None]"
  by (simp add: checkAlreadyHandled_def message_def tryBlock_def marker_def io_defs db_get_def
      worldWithoutMarker_def exampleEnv_def exampleBodies_def textBody_def textUpdate_def
      textMessage_def send_defs bot_sendMessage_def)

text \<open>
  Claim C3, amended. When the marker record is absent from the table and DynamoDB
  answers the read, the gate throws a TypeError after the read: nothing is written and
  the update is not processed. The invocation sends the error message to the chat and
  returns the fixed response.
\<close>

theorem absent_marker_throws:
  assumes "table s markerKey = None" and "\<not> dbGetFails env"
    and "JSON_parse env (ev_body ev) = Some body" and "upd_message body = Some m"
  shows "checkAlreadyHandled env (update_id body) s
           = (Inl TypeError, s\<lparr>calls := calls s @ [DbGet markerKey]\<rparr>)
       \<and> message env ev s
           = (Inr theResponse,
              s\<lparr>calls := calls s @ [DbGet markerKey, SendMessage (chat_id m) errorText None]\<rparr>)"
  using assms
  by (simp add: checkAlreadyHandled_def message_def tryBlock_def io_defs db_get_def
      send_defs bot_sendMessage_def)

theorem absent_marker_throws_witness:
  "checkAlreadyHandled (exampleEnv exampleBodies [] None) 101 worldWithoutMarker
           = (Inl TypeError, worldWithoutMarker\<lparr>calls := [DbGet markerKey]\<rparr>)
       \<and> message (exampleEnv exampleBodies [] None) \<lparr>ev_body = textBody\<rparr> worldWithoutMarker
           = (Inr theResponse,
              worldWithoutMarker\<lparr>calls := [DbGet markerKey, SendMessage 42 errorText None]\<rparr>)"
proof -
  have t: "table worldWithoutMarker markerKey = None"
    by (simp add: worldWithoutMarker_def)
  have g: "\<not> dbGetFails (exampleEnv exampleBodies [] None)"
    by (simp add: exampleEnv_def)
  have p: "JSON_parse (exampleEnv exampleBodies [] None) (ev_body \<lparr>ev_body = textBody\<rparr>) = Some textUpdate"
    by (simp add: exampleEnv_def exampleBodies_def)
  have m: "upd_message textUpdate = Some textMessage"
    by (simp add: textUpdate_def)
  show ?thesis
    using absent_marker_throws [OF t g p m]
    by (simp add: textUpdate_def textMessage_def worldWithoutMarker_def)
qed

subsection \<open>The contact property extractor\<close>

lemma trim_empty_iff: "trim v = [] \<longleftrightarrow> blank v"
proof -
  have "dropWhile isWhiteSpace v = [] \<longleftrightarrow> (\<forall>c\<in>set v. isWhiteSpace c)"
    by (induction v) auto
  moreover have "trim v = [] \<longleftrightarrow> dropWhile isWhiteSpace v = []"
  proof (cases "dropWhile isWhiteSpace v")
    case Nil
    show ?thesis unfolding trim_def Nil by simp
  next
    case (Cons c cs)
    then have "\<not> isWhiteSpace c" using hd_dropWhile [of isWhiteSpace v] by auto
    then have "dropWhile isWhiteSpace (rev (c # cs)) \<noteq> []"
      by (simp add: dropWhile_eq_Nil_conv)
    then show ?thesis unfolding trim_def Cons by simp
  qed
  ultimately show ?thesis by (simp add: blank_def list_all_iff)
qed

lemma forEachEntry_lastNonBlank:
  "list_all (\<lambda>e. case vc_value e of JString _ \<Rightarrow> True | JArray _ \<Rightarrow> False) es \<Longrightarrow>
   forEachEntry es acc =
     Inr (case rev (filter (\<lambda>v. \<not> blank v) (stringValues es)) of [] \<Rightarrow> acc | v # _ \<Rightarrow> v)"
  by (induction es arbitrary: acc)
    (auto simp: trim_empty_iff stringValues_def split: list.splits js_value.splits)

lemma forEachEntry_array_throws:
  "e \<in> set es \<Longrightarrow> vc_value e = JArray vs \<Longrightarrow> forEachEntry es acc = Inl TypeError"
  by (induction es arbitrary: acc) (auto split: js_value.splits)

text \<open>
  On a parsed contact whose \<^verbatim>\<open>fn\<close> and \<^verbatim>\<open>tel\<close> values are all strings, the extractor
  returns the last value that is not blank among the entries of each field, and the
  placeholder when the field is absent or all its values are blank: the loops of the
  code compute the specification's \<open>lastNonBlank\<close>.
\<close>

lemma extractProperties_string_values:
  assumes "stringValued (card_fn (vCard_parse env vcard))"
    and "stringValued (card_tel (vCard_parse env vcard))"
  shows "extractProperties env vcard =
     Inr \<lparr>prop_name = lastNonBlank ''No name found'' (card_fn (vCard_parse env vcard)),
          prop_telephone = lastNonBlank ''123456789'' (card_tel (vCard_parse env vcard))\<rparr>"
  using assms
  by (auto simp: extractProperties_def lastNonBlank_def stringValued_def
      forEachEntry_lastNonBlank Let_def split: option.splits)

lemma extractProperties_example:
  "extractProperties (exampleEnv [] exampleCards None) exampleVCard =
     Inr \<lparr>prop_name = ''Ada Lovelace'', prop_telephone = ''+44 20 7946 0000''\<rparr>"
  by (simp add: extractProperties_def exampleEnv_def exampleCards_def exampleCard_def
      exampleVCard_def commaVCard_def trim_def isWhiteSpace_def)

text \<open>An array among the values of \<^verbatim>\<open>fn\<close> makes the extractor throw, whatever else the card holds.\<close>

lemma extractProperties_array_name_throws:
  assumes "card_fn (vCard_parse env vcard) = Some es" and "e \<in> set es"
    and "vc_value e = JArray vs"
  shows "extractProperties env vcard = Inl TypeError"
  using assms
  by (simp add: extractProperties_def Let_def forEachEntry_array_throws)

text \<open>
  Claim C9 says that for every parsed contact object the extractor returns a name and
  a telephone, the last values that are not blank or the placeholders. The documentation
  of \<^verbatim>\<open>extractProperties\<close> says the same: it extracts the two if they exist and returns
  default values otherwise. The loops call \<^verbatim>\<open>trim\<close> on the value with no look at what it
  is. For the contact with \<^verbatim>\<open>FN:Lovelace, Ada\<close>, whose name the parser gives as an array,
  the extractor throws a TypeError and returns nothing.
\<close>

theorem array_value_extractor_throws:
  "vCard_parse (exampleEnv [] exampleCards None) commaVCard = commaCard
   \<and> extractProperties (exampleEnv [] exampleCards None) commaVCard = Inl TypeError"
  by (simp add: extractProperties_def exampleEnv_def exampleCards_def commaCard_def
      exampleVCard_def commaVCard_def)

subsection \<open>The router\<close>

text \<open>
  Claim C10. For every message whose text is a string that is not empty, whatever its
  photo sequence holds, the router runs the text handler and nothing else: the world
  after the call is the world before it with at most one call added, the reply to a
  known command. So no file is downloaded, nothing is decoded and no reply of the photo
  handler is sent. The same holds in the first variant, which knows two commands.
\<close>

theorem text_takes_precedence:
  assumes "msg_text m = Some t" and "t \<noteq> []"
  shows "handleIncomingMessage env m s = handleTextMessage env m s
       \<and> snd (handleIncomingMessage env m s)
           = s\<lparr>calls := calls s @
                (if t = ''/start'' then [SendMessage (chat_id m) startMessage mdOptions]
                 else if t = ''/about'' then [SendMessage (chat_id m) aboutMessage mdOptions]
                 else if t = ''/app'' then [SendMessage (chat_id m) appMessage mdOptions]
                 else [])\<rparr>
       \<and> handleIncomingMessage_first env m s = handleTextMessage_first env m s
       \<and> snd (handleIncomingMessage_first env m s)
           = s\<lparr>calls := calls s @
                (if t = ''/start'' then [SendMessage (chat_id m) startMessage mdOptions]
                 else if t = ''/about'' then [SendMessage (chat_id m) aboutMessage mdOptions]
                 else [])\<rparr>"
  using assms
  by (simp add: handleIncomingMessage_def handleIncomingMessage_first_def truthy_def
      handleTextMessage_def handleTextMessage_first_def io_defs send_defs bot_sendMessage_def)

theorem text_takes_precedence_witness:
  "hasPhoto captionedMessage
   \<and> snd (handleIncomingMessage (exampleEnv [] [] None) captionedMessage (worldWithMarker 100))
       = (worldWithMarker 100)\<lparr>calls := [SendMessage 42 aboutMessage mdOptions]\<rparr>
   \<and> snd (handleIncomingMessage_first (exampleEnv [] [] None) captionedMessage (worldWithMarker 100))
       = (worldWithMarker 100)\<lparr>calls := [SendMessage 42 aboutMessage mdOptions]\<rparr>"
proof -
  have t: "msg_text captionedMessage = Some ''/about''" by (simp add: captionedMessage_def)
  have n: "''/about'' \<noteq> []" by simp
  note th = text_takes_precedence [OF t n, of "exampleEnv [] [] None" "worldWithMarker 100"]
  have c: "chat_id captionedMessage = 42" "calls (worldWithMarker 100) = []"
    by (simp_all add: captionedMessage_def worldWithMarker_def)
  have a: "snd (handleIncomingMessage (exampleEnv [] [] None) captionedMessage (worldWithMarker 100))
       = (worldWithMarker 100)\<lparr>calls := [SendMessage 42 aboutMessage mdOptions]\<rparr>"
    using th [THEN conjunct2, THEN conjunct1] by (simp add: c)
  have b: "snd (handleIncomingMessage_first (exampleEnv [] [] None) captionedMessage (worldWithMarker 100))
       = (worldWithMarker 100)\<lparr>calls := [SendMessage 42 aboutMessage mdOptions]\<rparr>"
    using th [THEN conjunct2, THEN conjunct2, THEN conjunct2] by (simp add: c)
  have h: "hasPhoto captionedMessage" by (simp add: hasPhoto_def captionedMessage_def)
  show ?thesis using a b h by simp
qed

subsection \<open>The photo handler\<close>

text \<open>
  Claim C7. For every photo message whose last photo-size variant is wider or higher
  than the configured \<^verbatim>\<open>MAX_PHOTO_SIZE\<close>, the photo handler makes exactly one call, the
  message with the size limit, and changes nothing else: no download, no read of an
  image, no decoding.
\<close>

theorem oversized_photo_single_reply:
  assumes "msg_photo m = Some sizes" and "sizes \<noteq> []" and "sizeLimit env = Some limit"
    and "limit < width (last sizes) \<or> limit < height (last sizes)"
  shows "snd (handlePhotoMessage env m s)
           = s\<lparr>calls := calls s @
                [SendMessage (chat_id m) (sizeLimitMessage (Some limit)) mdOptions]\<rparr>"
  using assms
  by (auto simp: handlePhotoMessage_def js_gt_def io_defs send_defs bot_sendMessage_def)

theorem oversized_photo_single_reply_witness:
  "snd (handlePhotoMessage (exampleEnv [] [] None) largePhotoMessage (worldWithMarker 100))
     = (worldWithMarker 100)\<lparr>calls :=
          [SendMessage 42 ''I'm sorry, I will only decode images up to 1280x1280.'' mdOptions]\<rparr>"
proof -
  have p: "msg_photo largePhotoMessage = Some [smallPhoto, largePhoto]"
    by (simp add: largePhotoMessage_def)
  have n: "[smallPhoto, largePhoto] \<noteq> []" by simp
  have l: "sizeLimit (exampleEnv [] [] None) = Some 1280" by (simp add: exampleEnv_def)
  have w: "1280 < width (last [smallPhoto, largePhoto]) \<or> 1280 < height (last [smallPhoto, largePhoto])"
    by (simp add: largePhoto_def)
  have t: "sizeLimitMessage (Some 1280) = ''I'm sorry, I will only decode images up to 1280x1280.''"
    by (simp add: sizeLimitMessage_def showNumber_def showInt_def)
  show ?thesis
    using oversized_photo_single_reply [OF p n l w, of "worldWithMarker 100"]
    by (simp add: t largePhotoMessage_def worldWithMarker_def)
qed

text \<open>
  After a decode result that is not empty, and when the extractor returns for a result
  that starts with \<^verbatim>\<open>BEGIN:VCARD\<close>, exactly two outbound actions follow the decoding, in
  this order: the announcement, and then the contact carrying the extracted telephone
  and name with the raw payload attached, or the raw decoded text; the contact and the
  text are sent as a reply to the original message, the announcement carries no message
  to reply to. The notice sent before the decoding is part of the world \<open>s'\<close> in which
  the decoding ends. The Telegram API is taken to accept the notice and the announcement:
  a rejected call ends the handler.
\<close>

lemma decoded_photo_two_actions:
  assumes "msg_photo m = Some sizes" and "sizes \<noteq> []"
    and "\<not> js_gt (width (last sizes)) (sizeLimit env)"
    and "\<not> js_gt (height (last sizes)) (sizeLimit env)"
    and "\<not> sendRejects env (SendMessage (chat_id m) decodingMessage mdOptions)"
    and "decodePhoto env (last sizes)
           (s\<lparr>calls := calls s @ [SendMessage (chat_id m) decodingMessage mdOptions]\<rparr>)
         = (Inr data, s')"
    and "data \<noteq> []"
    and "startsWith data ''BEGIN:VCARD'' \<longrightarrow> extractProperties env data = Inr props"
    and "\<not> sendRejects env (SendMessage (chat_id m)
           (if startsWith data ''BEGIN:VCARD'' then doneContactMessage else doneTextMessage)
           mdOptions)"
  shows "snd (handlePhotoMessage env m s)
           = s'\<lparr>calls := calls s' @
               [SendMessage (chat_id m)
                  (if startsWith data ''BEGIN:VCARD'' then doneContactMessage else doneTextMessage)
                  mdOptions,
                if startsWith data ''BEGIN:VCARD''
                then SendContact (chat_id m) (prop_telephone props) (prop_name props)
                       \<lparr>co_vcard = data, co_reply_to_message_id = message_id m\<rparr>
                else SendMessage (chat_id m) data
                       (Some \<lparr>reply_to_message_id = Some (message_id m),
                              parse_mode = Some ''Markdown''\<rparr>)]\<rparr>"
proof (cases "startsWith data ''BEGIN:VCARD''")
  case True
  with assms show ?thesis
    by (simp add: handlePhotoMessage_def io_defs send_defs bot_sendMessage_def
        bot_sendContact_def)
next
  case False
  with assms show ?thesis
    by (simp add: handlePhotoMessage_def io_defs send_defs bot_sendMessage_def)
qed

lemma decoded_contact_example:
  "snd (handlePhotoMessage (exampleEnv [] exampleCards (Some \<lparr>qr_data = exampleVCard\<rparr>))
          photoMessage (worldWithMarker 100))
     = (worldWithMarker 100)\<lparr>calls :=
         [SendMessage 42 decodingMessage mdOptions,
          DownloadFile ''AgAD'' ''/tmp'', JimpRead ''/tmp/AgAD.jpg'', JsQR exampleBitmap,
          UnlinkSync ''/tmp/AgAD.jpg'',
          SendMessage 42 doneContactMessage mdOptions,
          SendContact 42 ''+44 20 7946 0000'' ''Ada Lovelace''
            \<lparr>co_vcard = exampleVCard, co_reply_to_message_id = 8\<rparr>]\<rparr>"
  by (simp add: handlePhotoMessage_def js_gt_def decodePhoto_def decodeBitmap_def
      startsWith_def extractProperties_def trim_def isWhiteSpace_def io_defs send_defs
      collab_defs example_defs exampleCards_def exampleCard_def exampleVCard_def
      commaVCard_def)

lemma decoded_text_example:
  "snd (handlePhotoMessage (exampleEnv [] exampleCards (Some \<lparr>qr_data = ''hello''\<rparr>))
          photoMessage (worldWithMarker 100))
     = (worldWithMarker 100)\<lparr>calls :=
         [SendMessage 42 decodingMessage mdOptions,
          DownloadFile ''AgAD'' ''/tmp'', JimpRead ''/tmp/AgAD.jpg'', JsQR exampleBitmap,
          UnlinkSync ''/tmp/AgAD.jpg'',
          SendMessage 42 doneTextMessage mdOptions,
          SendMessage 42 ''hello''
            (Some \<lparr>reply_to_message_id = Some 8, parse_mode = Some ''Markdown''\<rparr>)]\<rparr>"
  by (simp add: handlePhotoMessage_def js_gt_def decodePhoto_def decodeBitmap_def
      startsWith_def io_defs send_defs collab_defs example_defs)

text \<open>
  Claim C8 says that every decode result that is not empty is followed by two outbound
  actions, for a result that starts with \<^verbatim>\<open>BEGIN:VCARD\<close> the announcement and the
  contact. The handler announces the contact and calls \<^verbatim>\<open>sendContactReply\<close>, which
  extracts the properties first. For the contact with \<^verbatim>\<open>FN:Lovelace, Ada\<close> the extractor
  throws: the photo handler ends after the announcement, \<^verbatim>\<open>bot.sendContact\<close> is never
  called, and the invocation sends the generic error message. Update 102 with the marker
  at 101:
\<close>

theorem array_value_contact_not_sent:
  "handlePhotoMessage (exampleEnv exampleBodies exampleCards (Some \<lparr>qr_data = commaVCard\<rparr>))
       photoMessage (worldWithMarker 101)
     = (Inl TypeError,
        (worldWithMarker 101)\<lparr>calls :=
          [SendMessage 42 decodingMessage mdOptions,
           DownloadFile ''AgAD'' ''/tmp'', JimpRead ''/tmp/AgAD.jpg'', JsQR exampleBitmap,
           UnlinkSync ''/tmp/AgAD.jpg'',
           SendMessage 42 doneContactMessage mdOptions]\<rparr>)
   \<and> message (exampleEnv exampleBodies exampleCards (Some \<lparr>qr_data = commaVCard\<rparr>))
       \<lparr>ev_body = photoBody\<rparr> (worldWithMarker 101)
     = (Inr theResponse,
        \<lparr>calls = [DbGet markerKey, DbUpdate markerKey markerAttr 102,
                  SendMessage 42 decodingMessage mdOptions,
                  DownloadFile ''AgAD'' ''/tmp'', JimpRead ''/tmp/AgAD.jpg'', JsQR exampleBitmap,
                  UnlinkSync ''/tmp/AgAD.jpg'',
                  SendMessage 42 doneContactMessage mdOptions,
                  SendMessage 42 errorText None],
         files = {},
         table = [markerKey \<mapsto> [markerAttr \<mapsto> 102]]\<rparr>)"
  by (simp add: message_def tryBlock_def checkAlreadyHandled_def js_lt_def js_gt_def
      handleIncomingMessage_def truthy_def hasPhoto_def handlePhotoMessage_def
      decodePhoto_def decodeBitmap_def startsWith_def extractProperties_def
      io_defs send_defs collab_defs example_defs exampleCards_def commaCard_def
      exampleVCard_def commaVCard_def markerKey_def markerAttr_def)

text \<open>
  When \<^verbatim>\<open>jsQR\<close> finds a code whose data is the empty string, the decode result is the
  empty string and the handler replies to the original message that the code could not
  be decoded.
\<close>

lemma empty_data_reply:
  assumes "msg_photo m = Some sizes" and "sizes \<noteq> []"
    and "\<not> js_gt (width (last sizes)) (sizeLimit env)"
    and "\<not> js_gt (height (last sizes)) (sizeLimit env)"
    and "\<not> sendRejects env (SendMessage (chat_id m) decodingMessage mdOptions)"
    and "decodePhoto env (last sizes)
           (s\<lparr>calls := calls s @ [SendMessage (chat_id m) decodingMessage mdOptions]\<rparr>)
         = (Inr [], s')"
  shows "snd (handlePhotoMessage env m s)
           = s'\<lparr>calls := calls s' @
               [SendMessage (chat_id m) emptyMessage
                  (Some \<lparr>reply_to_message_id = Some (message_id m),
                         parse_mode = Some ''Markdown''\<rparr>)]\<rparr>"
  using assms
  by (simp add: handlePhotoMessage_def io_defs send_defs bot_sendMessage_def)

text \<open>
  Claim C5 says that a photo within the size limit in which \<^verbatim>\<open>jsQR\<close> finds no code, so
  that it returns \<^verbatim>\<open>null\<close>, is answered with the message that the code could not be
  decoded. \<^verbatim>\<open>decodeBitmap\<close> reads \<^verbatim>\<open>result.data\<close> of that \<^verbatim>\<open>null\<close>: the TypeError ends
  the photo handler, and the invocation sends the generic error message instead. The
  update 102 with a photo of 640 by 480, a limit of 1280 and the marker at 101:
\<close>

theorem no_code_found_error_message:
  "message (exampleEnv exampleBodies [] None) \<lparr>ev_body = photoBody\<rparr> (worldWithMarker 101)
     = (Inr theResponse,
        \<lparr>calls = [DbGet markerKey, DbUpdate markerKey markerAttr 102,
                  SendMessage 42 decodingMessage mdOptions,
                  DownloadFile ''AgAD'' ''/tmp'', JimpRead ''/tmp/AgAD.jpg'', JsQR exampleBitmap,
                  SendMessage 42 errorText None],
         files = {''/tmp/AgAD.jpg''},
         table = [markerKey \<mapsto> [markerAttr \<mapsto> 102]]\<rparr>)
   \<and> SendMessage 42 emptyMessage
         (Some \<lparr>reply_to_message_id = Some 8, parse_mode = Some ''Markdown''\<rparr>)
       \<notin> set (calls (snd (message (exampleEnv exampleBodies [] None) \<lparr>ev_body = photoBody\<rparr>
                              (worldWithMarker 101))))"
  by (simp add: message_def tryBlock_def checkAlreadyHandled_def js_lt_def js_gt_def
      handleIncomingMessage_def truthy_def hasPhoto_def handlePhotoMessage_def
      decodePhoto_def decodeBitmap_def io_defs send_defs
      collab_defs example_defs markerKey_def markerAttr_def emptyMessage_def errorText_def
      decodingMessage_def)

subsection \<open>The temporary file\<close>

text \<open>
  Claim C4 says that the downloaded file is removed on every exit path of the decode
  step. \<^verbatim>\<open>decodePhoto\<close> removes it after the decoding only, with no \<^verbatim>\<open>finally\<close>. When
  \<^verbatim>\<open>jsQR\<close> finds no code, \<^verbatim>\<open>decodeBitmap\<close> throws and the file stays; when Jimp cannot
  read the image, the file stays, in both variants. The first variant removed the file
  before it read \<^verbatim>\<open>result.data\<close>, so that there a photo without a code left no file.
\<close>

theorem failed_decode_leaves_file:
  "decodePhoto (exampleEnv [] [] None) smallPhoto (worldWithMarker 100)
     = (Inl TypeError,
        (worldWithMarker 100)
          \<lparr>calls := [DownloadFile ''AgAD'' ''/tmp'', JimpRead ''/tmp/AgAD.jpg'', JsQR exampleBitmap],
           files := {''/tmp/AgAD.jpg''}\<rparr>)
   \<and> decodePhoto ((exampleEnv [] [] None)\<lparr>jimpRead := (\<lambda>_. None)\<rparr>) smallPhoto (worldWithMarker 100)
     = (Inl ReadFailed,
        (worldWithMarker 100)
          \<lparr>calls := [DownloadFile ''AgAD'' ''/tmp'', JimpRead ''/tmp/AgAD.jpg''],
           files := {''/tmp/AgAD.jpg''}\<rparr>)
   \<and> decodePhoto_first ((exampleEnv [] [] None)\<lparr>jimpRead := (\<lambda>_. None)\<rparr>) smallPhoto (worldWithMarker 100)
     = (Inl ReadFailed,
        (worldWithMarker 100)
          \<lparr>calls := [DownloadFile ''AgAD'' ''/tmp'', JimpRead ''/tmp/AgAD.jpg''],
           files := {''/tmp/AgAD.jpg''}\<rparr>)
   \<and> decodePhoto_first (exampleEnv [] [] None) smallPhoto (worldWithMarker 100)
     = (Inl TypeError,
        (worldWithMarker 100)
          \<lparr>calls := [DownloadFile ''AgAD'' ''/tmp'', JimpRead ''/tmp/AgAD.jpg'', JsQR exampleBitmap,
                      UnlinkSync ''/tmp/AgAD.jpg''],
           files := {}\<rparr>)"
  by (simp add: decodePhoto_def decodePhoto_first_def decodeBitmap_def io_defs collab_defs
      example_defs)

text \<open>When every step succeeds the file is removed: the files are those of before.\<close>

lemma decodePhoto_removes_file:
  assumes "downloadFile env (file_id photo) (tmpdir env) = Some path"
    and "jimpRead env path = Some img" and "jsQR env (img_bitmap img) = Some r"
    and "path \<notin> files s"
  shows "fst (decodePhoto env photo s) = Inr (qr_data r)
       \<and> files (snd (decodePhoto env photo s)) = files s"
  using assms
  by (simp add: decodePhoto_def decodeBitmap_def io_defs collab_defs)

subsection \<open>The Lambda function\<close>

text \<open>
  Claim C1 says that an update whose id is not above the marker produces no message to
  the user. In the branch that logs \<^verbatim>\<open>Received old event, ignoring.\<close> the code calls
  \<^verbatim>\<open>sendErrorMessage\<close>. Update 101 with the marker at 101:
\<close>

theorem duplicate_update_error_message:
  "message (exampleEnv exampleBodies [] None) \<lparr>ev_body = textBody\<rparr> (worldWithMarker 101)
     = (Inr theResponse,
        (worldWithMarker 101)\<lparr>calls := [DbGet markerKey, SendMessage 42 errorText None]\<rparr>)"
  by (simp add: message_def tryBlock_def checkAlreadyHandled_def js_lt_def io_defs send_defs
      collab_defs example_defs markerKey_def markerAttr_def)

text \<open>
  For every update at or below the marker the calls are the read of the marker and the
  error message; when the Telegram API rejects that message, the \<^verbatim>\<open>catch\<close> block sends
  it again.
\<close>

lemma duplicate_update_calls:
  assumes "JSON_parse env (ev_body ev) = Some body" and "upd_message body = Some m"
    and "\<not> dbGetFails env" and "marker s = Some latest" and "update_id body \<le> latest"
  shows "message env ev s
           = (Inr theResponse,
              s\<lparr>calls := calls s @ [DbGet markerKey, SendMessage (chat_id m) errorText None]
                   @ (if sendRejects env (SendMessage (chat_id m) errorText None)
                      then [SendMessage (chat_id m) errorText None] else [])\<rparr>)"
  using assms
  by (auto simp: message_def tryBlock_def checkAlreadyHandled_def marker_def js_lt_def io_defs
      sendErrorMessage_def bot_sendMessage_def db_get_def split: option.splits)

text \<open>
  Claim C6 says that every invocation returns status 200 with the acknowledgement,
  whatever the payload. \<^verbatim>\<open>JSON.parse(event.body)\<close> and \<^verbatim>\<open>body.message.chat.id\<close> stand
  before the \<^verbatim>\<open>try\<close>: a body that is not JSON, or an update that carries no message,
  makes the function reject, with no message to any chat.
\<close>

theorem message_rejects_counterexample:
  "message (exampleEnv exampleBodies [] None) \<lparr>ev_body = ''ping''\<rparr> (worldWithMarker 100)
     = (Inl SyntaxError, worldWithMarker 100)
   \<and> message (exampleEnv exampleBodies [] None) \<lparr>ev_body = editedBody\<rparr> (worldWithMarker 100)
     = (Inl TypeError, worldWithMarker 100)"
  by (simp add: message_def example_defs)

text \<open>
  Claim C6, amended. For every invocation whose body parses to an update that carries a
  message, whatever the outcome of the block under \<^verbatim>\<open>try\<close> (a duplicate, a failing
  collaborator, success), the function returns status 200 with the body
  \<^verbatim>\<open>{"done":true}\<close>. When the block throws, the one thing added to what the block did is
  the error message to the chat.
\<close>

theorem message_acknowledges:
  assumes "JSON_parse env (ev_body ev) = Some body" and "upd_message body = Some m"
  shows "fst (message env ev s) = Inr \<lparr>statusCode = 200, resp_body = ''{\"done\":true}''\<rparr>
       \<and> (case tryBlock env body m s of
             (Inr _, s1) \<Rightarrow> snd (message env ev s) = s1
           | (Inl e, s1) \<Rightarrow>
               snd (message env ev s)
                 = s1\<lparr>calls := calls s1 @ [SendMessage (chat_id m) errorText None]\<rparr>)"
  using assms
  by (simp add: message_def theResponse_def io_defs sendErrorMessage_def bot_sendMessage_def
      split: prod.splits sum.splits)

theorem message_acknowledges_witness:
  "fst (message (exampleEnv exampleBodies [] None) \<lparr>ev_body = photoBody\<rparr> (worldWithMarker 101))
     = Inr \<lparr>statusCode = 200, resp_body = ''{\"done\":true}''\<rparr>
   \<and> fst (message ((exampleEnv exampleBodies [] None)\<lparr>sendRejects := (\<lambda>_. True)\<rparr>)
            \<lparr>ev_body = textBody\<rparr> (worldWithMarker 100))
     = Inr \<lparr>statusCode = 200, resp_body = ''{\"done\":true}''\<rparr>"
proof -
  have p: "JSON_parse (exampleEnv exampleBodies [] None) (ev_body \<lparr>ev_body = photoBody\<rparr>)
             = Some photoUpdate"
    by (simp add: example_defs)
  have m: "upd_message photoUpdate = Some photoMessage" by (simp add: photoUpdate_def)
  have q: "JSON_parse ((exampleEnv exampleBodies [] None)\<lparr>sendRejects := (\<lambda>_. True)\<rparr>)
             (ev_body \<lparr>ev_body = textBody\<rparr>) = Some textUpdate"
    by (simp add: example_defs)
  have n: "upd_message textUpdate = Some textMessage" by (simp add: textUpdate_def)
  show ?thesis
    using message_acknowledges [OF p m, THEN conjunct1, of "worldWithMarker 101"]
      message_acknowledges [OF q n, THEN conjunct1, of "worldWithMarker 100"]
    by simp
qed

end
